theory Spec2Isabelle
  imports Main
begin

section \<open>Data model of \<^verbatim>\<open>cmd/generate.go\<close>\<close>

text \<open>
  Go strings and byte slices are modelled as \<^typ>\<open>string\<close> (a list of bytes). Go's
  \<^verbatim>\<open>int\<close> is modelled as \<^typ>\<open>int\<close>: the program never does arithmetic on it, it
  only stores what the driver scanned. A pointer field (\<^verbatim>\<open>*string\<close>, \<^verbatim>\<open>*int\<close>) is
  an option, \<open>None\<close> for \<^verbatim>\<open>nil\<close>.
\<close>

type_synonym bytes = string

definition mssqlVarChar :: string where "mssqlVarChar = ''varchar''"
definition mssqlNVarChar :: string where "mssqlNVarChar = ''nvarchar''"
definition mssqlChar :: string where "mssqlChar = ''char''"
definition mssqlInt :: string where "mssqlInt = ''int''"
definition mssqlFloat :: string where "mssqlFloat = ''float''"
definition mssqlBit :: string where "mssqlBit = ''bit''"
definition mssqlTime :: string where "mssqlTime = ''datetime''"
definition mssqlBinary :: string where "mssqlBinary = ''binary''"

record DatabaseExistsRow =
  DatabaseExists :: bool

record TableExistsRow =
  TableExists :: bool

text \<open>
  \<^verbatim>\<open>ParsedColumns\<close> and \<^verbatim>\<open>Attribute\<close> are declared before \<^verbatim>\<open>Columns\<close>, so that the
  field name \<open>TableName\<close>, which both structs have, reads as the one of \<^verbatim>\<open>Columns\<close>
  when it is not qualified; the field of the result is written \<open>ParsedColumns.TableName\<close>.
\<close>

record Attribute =
  Name :: string
  Type :: string

record ParsedColumns =
  TableName :: string
  Attributes :: "Attribute list"

record Columns =
  TableCatalog :: string
  TableSchema :: string
  TableName :: string
  ColumnName :: string
  OrdinalPosition :: int
  ColumnDefault :: "string option"
  IsNullable :: string
  DataType :: string
  CharacterMaximumLength :: "int option"
  CharacterOctetLength :: "int option"
  NumericPrecision :: "int option"
  NumericPrecisionRadix :: "int option"
  NumericScale :: "int option"
  DateTimePrecision :: "int option"
  CharacterSetCatalog :: "string option"
  CharacterSetSchema :: "string option"
  CharacterSetName :: "string option"
  CollationCatalog :: "string option"
  CollationSchema :: "string option"
  CollationName :: "string option"
  DomainCatalog :: "string option"
  DomainSchema :: "string option"
  DomainName :: "string option"

text \<open>The Go map literal \<^verbatim>\<open>mssqlTypeMap\<close>; a lookup of an absent key gives \<open>None\<close>
  (the \<^verbatim>\<open>ok\<close> of \<^verbatim>\<open>val, ok := m[k]\<close> is false).\<close>

definition mssqlTypeMap :: "string \<rightharpoonup> string" where
  "mssqlTypeMap = map_of
     [(mssqlVarChar, ''string''),
      (mssqlNVarChar, ''string''),
      (mssqlChar, ''string''),
      (mssqlInt, ''int64''),
      (mssqlFloat, ''float64''),
      (mssqlBit, ''bool''),
      (mssqlTime, ''time.Time''),
      (mssqlBinary, ''[]byte'')]"

section \<open>The type mapper: \<^verbatim>\<open>parseResults\<close>\<close>

text \<open>
  \<open>parseResults_attr\<close> is the attribute that one iteration of the loop builds: the
  column's name, and the mapped type when the map has the data type (the zero value
  \<^verbatim>\<open>""\<close> stays otherwise). \<open>parseResults_body\<close> is the body of the
  \<^verbatim>\<open>for _, col := range c\<close> loop: it overwrites the table name and appends the
  attribute.
\<close>

definition parseResults_attr :: "Columns \<Rightarrow> Attribute" where
  "parseResults_attr col =
     (let attr = \<lparr>Name = ColumnName col, Type = ''''\<rparr>
      in case mssqlTypeMap (DataType col) of
           Some val \<Rightarrow> attr\<lparr>Type := val\<rparr>
         | None \<Rightarrow> attr)"

definition parseResults_body :: "ParsedColumns \<Rightarrow> Columns \<Rightarrow> ParsedColumns" where
  "parseResults_body pc col =
     (let pc1 = pc\<lparr>ParsedColumns.TableName := Columns.TableName col\<rparr>;
          attr = parseResults_attr col
      in pc1\<lparr>Attributes := Attributes pc1 @ [attr]\<rparr>)"

fun parseResults_loop :: "Columns list \<Rightarrow> ParsedColumns \<Rightarrow> ParsedColumns" where
  "parseResults_loop [] pc = pc"
| "parseResults_loop (col # c) pc = parseResults_loop c (parseResults_body pc col)"

definition parseResults :: "Columns list \<Rightarrow> ParsedColumns" where
  "parseResults c =
     parseResults_loop c \<lparr>ParsedColumns.TableName = '''', Attributes = []\<rparr>"

section \<open>Errors, panics and the world outside the program\<close>

text \<open>
  A Go \<^verbatim>\<open>error\<close> value. The program only tests it against \<^verbatim>\<open>nil\<close> and prints
  \<^verbatim>\<open>err.Error()\<close>. The constructors keep where the value was made: by
  \<^verbatim>\<open>errors.New\<close> in \<^verbatim>\<open>readTable\<close>, by the \<^verbatim>\<open>os\<close> package (a
  \<^verbatim>\<open>*PathError\<close> with operation, path and cause), or by one of the libraries (the
  database driver, \<^verbatim>\<open>text/template\<close>, \<^verbatim>\<open>go/format\<close>, \<^verbatim>\<open>imports\<close>).
  A function that returns \<^verbatim>\<open>(T, error)\<close> is modelled as returning a pair whose second
  component is \<open>None\<close> for \<^verbatim>\<open>nil\<close>; a \<^verbatim>\<open>nil\<close> slice is the empty list.
\<close>

datatype error =
    ErrorsNew string
  | PathError string string string
  | LibraryError string

fun errorText :: "error \<Rightarrow> string" where
  "errorText (ErrorsNew msg) = msg"
| "errorText (PathError opn pth cause) = opn @ '' '' @ pth @ '': '' @ cause"
| "errorText (LibraryError msg) = msg"

text \<open>A call either returns or panics (a run-time error that unwinds the stack).\<close>

datatype 'a outcome = Return 'a | Panic string

fun isPanic :: "'a outcome \<Rightarrow> bool" where
  "isPanic (Panic msg) = True"
| "isPanic (Return r) = False"

text \<open>
  The three statements the program sends, named instead of spelled out, with their
  arguments: the database-existence probe (\<^verbatim>\<open>IF DB_ID(?) IS NOT NULL ...\<close>, argument
  the \<^verbatim>\<open>database\<close> flag), the table-existence probe (over
  \<^verbatim>\<open>UserManagement.INFORMATION_SCHEMA.TABLES\<close>, argument the \<^verbatim>\<open>table\<close> flag)
  and the column query (\<^verbatim>\<open>SELECT * FROM %s.INFORMATION_SCHEMA.COLUMNS WHERE TABLE_NAME=?\<close>,
  the \<^verbatim>\<open>database\<close> flag spliced into the text, argument the \<^verbatim>\<open>table\<close> flag).
\<close>

datatype query =
    DatabaseExistsQuery string
  | TableExistsQuery string
  | ColumnsQuery string string

datatype dbEvent = Connect | Query query | Close

datatype node = Dir | File bytes

datatype fsEvent = Mkdir string | WriteFile string bytes | ReadFile string

text \<open>
  What the operating system may do to a file-system call beyond what the directory tree
  decides: refuse it with a cause, or (for a write) fail with a cause after the file was
  opened and truncated and only the first \<open>n\<close> bytes were written.
\<close>

datatype fault = Refused string | Truncated nat string

fun faultCause :: "fault \<Rightarrow> string" where
  "faultCause (Refused cause) = cause"
| "faultCause (Truncated n cause) = cause"

text \<open>
  The state outside the program: the lines written to standard error, the log of what
  was done on the database connection, the log of file-system calls, the directory tree
  (a path is absent, a directory, or a file with its contents), and for each coming
  file-system call whether the operating system makes it fail (an empty list: no more
  faults).
\<close>

record world =
  stderr :: "string list"
  dbLog :: "dbEvent list"
  fsLog :: "fsEvent list"
  fsEntries :: "string \<rightharpoonup> node"
  fsFaults :: "fault option list"

text \<open>\<^verbatim>\<open>fmt.Fprintf(os.Stderr, ...)\<close> with the formatted message.\<close>

definition Fprintf_Stderr :: "string \<Rightarrow> world \<Rightarrow> world" where
  "Fprintf_Stderr msg w = w\<lparr>stderr := stderr w @ [msg]\<rparr>"

definition nextFault :: "world \<Rightarrow> fault option \<times> world" where
  "nextFault w =
     (case fsFaults w of
        [] \<Rightarrow> (None, w)
      | f # fs \<Rightarrow> (f, w\<lparr>fsFaults := fs\<rparr>))"

text \<open>
  \<^verbatim>\<open>os.Mkdir\<close>: fails when the path exists already (\<^verbatim>\<open>EEXIST\<close>, "file exists") and
  changes nothing then; otherwise it fails when the operating system refuses, and
  creates the directory when it does not.
\<close>

definition osMkdir :: "string \<Rightarrow> world \<Rightarrow> error option \<times> world" where
  "osMkdir name w =
     (let (f, w1) = nextFault (w\<lparr>fsLog := fsLog w @ [Mkdir name]\<rparr>)
      in case fsEntries w1 name of
           Some n \<Rightarrow> (Some (PathError ''mkdir'' name ''file exists''), w1)
         | None \<Rightarrow>
             (case f of
                Some flt \<Rightarrow> (Some (PathError ''mkdir'' name (faultCause flt)), w1)
              | None \<Rightarrow> (None, w1\<lparr>fsEntries := (fsEntries w1)(name \<mapsto> Dir)\<rparr>)))"

text \<open>
  \<^verbatim>\<open>os.WriteFile\<close> opens the file with \<^verbatim>\<open>O_WRONLY|O_CREATE|O_TRUNC\<close>, writes the
  data and closes the file. It fails on a directory; it fails with nothing changed when
  the open is refused; it may fail after the truncation, leaving a prefix of the data.
\<close>

definition osWriteFile :: "string \<Rightarrow> bytes \<Rightarrow> world \<Rightarrow> error option \<times> world" where
  "osWriteFile name data w =
     (let (f, w1) = nextFault (w\<lparr>fsLog := fsLog w @ [WriteFile name data]\<rparr>)
      in case fsEntries w1 name of
           Some Dir \<Rightarrow> (Some (PathError ''open'' name ''is a directory''), w1)
         | _ \<Rightarrow>
             (case f of
                Some (Refused cause) \<Rightarrow> (Some (PathError ''open'' name cause), w1)
              | Some (Truncated n cause) \<Rightarrow>
                  (Some (PathError ''write'' name cause),
                   w1\<lparr>fsEntries := (fsEntries w1)(name \<mapsto> File (take n data))\<rparr>)
              | None \<Rightarrow> (None, w1\<lparr>fsEntries := (fsEntries w1)(name \<mapsto> File data)\<rparr>)))"

text \<open>\<^verbatim>\<open>ioutil.ReadFile\<close>: the contents of a file, or an error; the tree is not changed.\<close>

definition ioutilReadFile :: "string \<Rightarrow> world \<Rightarrow> (bytes \<times> error option) \<times> world" where
  "ioutilReadFile name w =
     (let (f, w1) = nextFault (w\<lparr>fsLog := fsLog w @ [ReadFile name]\<rparr>)
      in case f of
           Some flt \<Rightarrow> (([], Some (PathError ''open'' name (faultCause flt))), w1)
         | None \<Rightarrow>
             (case fsEntries w1 name of
                None \<Rightarrow> (([], Some (PathError ''open'' name ''no such file or directory'')), w1)
              | Some Dir \<Rightarrow> (([], Some (PathError ''read'' name ''is a directory'')), w1)
              | Some (File data) \<Rightarrow> ((data, None), w1)))"

text \<open>
  The library functions the program calls and this development does not look into, as
  parameters: \<^verbatim>\<open>strings.ToLower\<close>, \<^verbatim>\<open>path.Join\<close>, \<^verbatim>\<open>imports.Process\<close> (file
  name and source), \<^verbatim>\<open>format.Source\<close>, and the parsing and the execution of the
  embedded template \<^verbatim>\<open>templates/generate.tmpl\<close>.
\<close>

record golib =
  ToLower :: "string \<Rightarrow> string"
  pathJoin :: "string \<Rightarrow> string \<Rightarrow> string"
  importsProcess :: "string \<Rightarrow> bytes \<Rightarrow> bytes \<times> error option"
  formatSource :: "bytes \<Rightarrow> bytes \<times> error option"
  templateParseFS :: "error option"
  templateExecute :: "ParsedColumns \<Rightarrow> bytes \<times> error option"

text \<open>
  The configuration that \<^verbatim>\<open>viper.GetString\<close> reads, the two flags of the command, and
  the \<^verbatim>\<open>url.URL\<close> built from the configuration.
\<close>

record viperConfig =
  server_user :: string
  server_pass :: string
  server_host :: string
  server_port :: string

record Command =
  databaseFlag :: string
  tableFlag :: string

record URL =
  Scheme :: string
  User :: "string \<times> string"
  Host :: string

text \<open>
  The database server as the program sees it through \<^verbatim>\<open>sqlx\<close>: whether
  \<^verbatim>\<open>sqlx.Connect\<close> succeeds for a driver name and a URL, and what \<^verbatim>\<open>db.Select\<close>
  scans for each of the three statements (the rows, or an error).
\<close>

record server =
  sqlxConnect :: "string \<Rightarrow> URL \<Rightarrow> error option"
  selectDatabaseExists :: "string \<Rightarrow> DatabaseExistsRow list \<times> error option"
  selectTableExists :: "string \<Rightarrow> TableExistsRow list \<times> error option"
  selectColumns :: "string \<Rightarrow> string \<Rightarrow> Columns list \<times> error option"

definition dbLogAppend :: "dbEvent \<Rightarrow> world \<Rightarrow> world" where
  "dbLogAppend ev w = w\<lparr>dbLog := dbLog w @ [ev]\<rparr>"

text \<open>
  Whether a connection is open after a log of events, starting from \<open>b\<close>: opening
  makes it open, closing makes it closed, a query leaves it as it is.
\<close>

fun connectionState :: "bool \<Rightarrow> dbEvent list \<Rightarrow> bool" where
  "connectionState b [] = b"
| "connectionState b (Connect # evs) = connectionState True evs"
| "connectionState b (Close # evs) = connectionState False evs"
| "connectionState b (Query q # evs) = connectionState b evs"

section \<open>The schema reader: \<^verbatim>\<open>checkDatabaseExists\<close>, \<^verbatim>\<open>checkTableExists\<close>, \<^verbatim>\<open>readTable\<close>\<close>

text \<open>
  \<^verbatim>\<open>dbExists[0]\<close> is read without a test of the length of the slice: on an empty slice
  the index expression panics.
\<close>

definition checkDatabaseExists ::
  "server \<Rightarrow> Command \<Rightarrow> world \<Rightarrow> (bool \<times> error option) outcome \<times> world" where
  "checkDatabaseExists srv cmd w =
     (let w1 = dbLogAppend (Query (DatabaseExistsQuery (databaseFlag cmd))) w;
          (dbExists, err) = selectDatabaseExists srv (databaseFlag cmd)
      in if err \<noteq> None then (Return (False, err), w1)
         else (case dbExists of
                 [] \<Rightarrow> (Panic ''runtime error: index out of range [0] with length 0'', w1)
               | row # rest \<Rightarrow>
                   if \<not> DatabaseExists row then (Return (False, None), w1)
                   else (Return (True, None), w1)))"

definition checkTableExists ::
  "server \<Rightarrow> Command \<Rightarrow> world \<Rightarrow> (bool \<times> error option) outcome \<times> world" where
  "checkTableExists srv cmd w =
     (let w1 = dbLogAppend (Query (TableExistsQuery (tableFlag cmd))) w;
          (tableExists, err) = selectTableExists srv (tableFlag cmd)
      in if err \<noteq> None then (Return (False, err), w1)
         else (case tableExists of
                 [] \<Rightarrow> (Panic ''runtime error: index out of range [0] with length 0'', w1)
               | row # rest \<Rightarrow>
                   if \<not> TableExists row then (Return (False, None), w1)
                   else (Return (True, None), w1)))"

definition connectionURL :: "viperConfig \<Rightarrow> URL" where
  "connectionURL cfg =
     \<lparr>Scheme = ''sqlserver'',
      User = (server_user cfg, server_pass cfg),
      Host = server_host cfg @ '':'' @ server_port cfg\<rparr>"

text \<open>
  \<open>readTable_connected\<close> is the part of \<^verbatim>\<open>readTable\<close> after \<^verbatim>\<open>defer db.Close()\<close>.
  \<open>readTable\<close> opens the connection, runs that part, and runs the deferred
  \<^verbatim>\<open>db.Close()\<close> when it returns or panics.
\<close>

definition readTable_connected ::
  "server \<Rightarrow> Command \<Rightarrow> world \<Rightarrow> (Columns list \<times> error option) outcome \<times> world" where
  "readTable_connected srv cmd w =
     (case checkDatabaseExists srv cmd w of
        (Panic msg, w1) \<Rightarrow> (Panic msg, w1)
      | (Return (dbExists, err), w1) \<Rightarrow>
          if err \<noteq> None then (Return ([], err), w1)
          else if \<not> dbExists
          then (Return ([], Some (ErrorsNew ''databaseG does not exist'')), w1)
          else
            (case checkTableExists srv cmd w1 of
               (Panic msg, w2) \<Rightarrow> (Panic msg, w2)
             | (Return (tableExists, err), w2) \<Rightarrow>
                 if err \<noteq> None then (Return ([], err), w2)
                 else if \<not> tableExists
                 then (Return ([], Some (ErrorsNew ''table does not exist'')), w2)
                 else
                   (let t = tableFlag cmd;
                        w3 = dbLogAppend (Query (ColumnsQuery (databaseFlag cmd) t)) w2;
                        (rows, err) = selectColumns srv (databaseFlag cmd) t
                    in if err \<noteq> None then (Return ([], err), w3)
                       else (Return (rows, None), w3))))"

definition readTable ::
  "server \<Rightarrow> viperConfig \<Rightarrow> Command \<Rightarrow> world
     \<Rightarrow> (Columns list \<times> error option) outcome \<times> world" where
  "readTable srv cfg cmd w =
     (let u = connectionURL cfg
      in case sqlxConnect srv ''mssql'' u of
           Some err \<Rightarrow>
             (Return ([], Some err),
              Fprintf_Stderr (''While connecting to database server: '' @ errorText err) w)
         | None \<Rightarrow>
             (let (res, w1) = readTable_connected srv cmd (dbLogAppend Connect w)
              in (res, dbLogAppend Close w1)))"

section \<open>The renderer and the writer: \<^verbatim>\<open>generateTypes\<close>, \<^verbatim>\<open>writeTypes\<close>\<close>

definition generateTypes :: "golib \<Rightarrow> Columns list \<Rightarrow> bytes \<times> error option" where
  "generateTypes lib rows =
     (case templateParseFS lib of
        Some err \<Rightarrow> ([], Some err)
      | None \<Rightarrow>
          (let (tmplBuff, err) = templateExecute lib (parseResults rows)
           in if err \<noteq> None then ([], err)
              else
                (let (fmtBytes, err) = formatSource lib tmplBuff
                 in if err \<noteq> None then ([], err)
                    else (fmtBytes, None))))"

text \<open>
  In the last step the result of the second \<^verbatim>\<open>os.WriteFile\<close> is not assigned: the
  test that follows reads \<^verbatim>\<open>err\<close>, which still holds the result of
  \<^verbatim>\<open>imports.Process\<close>.
\<close>

definition writeTypes :: "golib \<Rightarrow> Command \<Rightarrow> bytes \<Rightarrow> world \<Rightarrow> error option \<times> world" where
  "writeTypes lib cmd fileBytes w =
     (let tLower = ToLower lib (tableFlag cmd);
          (err, w1) = osMkdir tLower w
      in case err of
           Some e \<Rightarrow> (err, Fprintf_Stderr (''While writing directory: '' @ errorText e) w1)
         | None \<Rightarrow>
      (let filePath = pathJoin lib tLower (tLower @ ''.go'');
           (err, w2) = osWriteFile filePath fileBytes w1
       in case err of
            Some e \<Rightarrow> (err, Fprintf_Stderr (''While writing generated code: '' @ errorText e) w2)
          | None \<Rightarrow>
      (let ((genFileBytes, err), w3) = ioutilReadFile filePath w2
       in case err of
            Some e \<Rightarrow>
              (err, Fprintf_Stderr
                      (''While opening file for imports generation: '' @ errorText e) w3)
          | None \<Rightarrow>
      (let (formatted, err) = importsProcess lib (tLower @ ''.go'') genFileBytes
       in case err of
            Some e \<Rightarrow> (err, Fprintf_Stderr (''While formatting imports: '' @ errorText e) w3)
          | None \<Rightarrow>
      (let (discarded, w4) = osWriteFile filePath formatted w3
       in case err of
            Some e \<Rightarrow>
              (err, Fprintf_Stderr (''While writing formatted file: '' @ errorText e) w4)
          | None \<Rightarrow> (None, w4))))))"

section \<open>The command: \<^verbatim>\<open>generateCmd\<close>\<close>

definition generateCmd ::
  "golib \<Rightarrow> server \<Rightarrow> viperConfig \<Rightarrow> Command \<Rightarrow> world \<Rightarrow> unit outcome \<times> world" where
  "generateCmd lib srv cfg cmd w =
     (case readTable srv cfg cmd w of
        (Panic msg, w1) \<Rightarrow> (Panic msg, w1)
      | (Return (rows, err), w1) \<Rightarrow>
          (case err of
             Some e \<Rightarrow>
               (Return (), Fprintf_Stderr (''While parsing database table: '' @ errorText e) w1)
           | None \<Rightarrow>
               (let (fmtBytes, err) = generateTypes lib rows
                in case err of
                     Some e \<Rightarrow>
                       (Return (),
                        Fprintf_Stderr (''While generating code: '' @ errorText e) w1)
                   | None \<Rightarrow>
                       (let (err, w2) = writeTypes lib cmd fmtBytes w1
                        in case err of
                             Some e \<Rightarrow>
                               (Return (),
                                Fprintf_Stderr
                                  (''While writing generated code: '' @ errorText e) w2)
                           | None \<Rightarrow> (Return (), w2)))))"

section \<open>Concrete inputs\<close>

text \<open>A column row with the optional facets absent.\<close>

definition exampleColumn :: "string \<Rightarrow> string \<Rightarrow> int \<Rightarrow> string \<Rightarrow> Columns" where
  "exampleColumn t n i d =
     \<lparr>TableCatalog = ''Shop'', TableSchema = ''dbo'', TableName = t, ColumnName = n,
      OrdinalPosition = i, ColumnDefault = None, IsNullable = ''YES'', DataType = d,
      CharacterMaximumLength = None, CharacterOctetLength = None, NumericPrecision = None,
      NumericPrecisionRadix = None, NumericScale = None, DateTimePrecision = None,
      CharacterSetCatalog = None, CharacterSetSchema = None, CharacterSetName = None,
      CollationCatalog = None, CollationSchema = None, CollationName = None,
      DomainCatalog = None, DomainSchema = None, DomainName = None\<rparr>"

definition usersRows :: "Columns list" where
  "usersRows =
     [exampleColumn ''Users'' ''Id'' 1 ''int'',
      exampleColumn ''Users'' ''Name'' 2 ''varchar'',
      exampleColumn ''Users'' ''Profile'' 3 ''xml'']"

text \<open>The rows of a two-column table as a server may send them: second column first.\<close>

definition swappedRows :: "Columns list" where
  "swappedRows =
     [exampleColumn ''Users'' ''Name'' 2 ''varchar'',
      exampleColumn ''Users'' ''Id'' 1 ''int'']"

definition exampleConfig :: viperConfig where
  "exampleConfig =
     \<lparr>server_user = ''sa'', server_pass = ''secret'',
      server_host = ''localhost'', server_port = ''1433''\<rparr>"

definition exampleCommand :: Command where
  "exampleCommand = \<lparr>databaseFlag = ''Shop'', tableFlag = ''Users''\<rparr>"

text \<open>A server that accepts the connection, has the database and the table, and sends
  the rows of \<open>usersRows\<close>.\<close>

definition exampleServer :: server where
  "exampleServer =
     \<lparr>sqlxConnect = (\<lambda>drv u. None),
      selectDatabaseExists = (\<lambda>d. ([\<lparr>DatabaseExists = True\<rparr>], None)),
      selectTableExists = (\<lambda>t. ([\<lparr>TableExists = True\<rparr>], None)),
      selectColumns = (\<lambda>d t. (usersRows, None))\<rparr>"

text \<open>Library functions for the concrete runs: lower-casing of the letters A to Z,
  joining with a slash, and passes that return their input.\<close>

definition asciiLower :: "char \<Rightarrow> char" where
  "asciiLower ch =
     (case map_of (zip ''ABCDEFGHIJKLMNOPQRSTUVWXYZ'' ''abcdefghijklmnopqrstuvwxyz'') ch of
        Some l \<Rightarrow> l
      | None \<Rightarrow> ch)"

definition exampleLib :: golib where
  "exampleLib =
     \<lparr>ToLower = map asciiLower,
      pathJoin = (\<lambda>a b. a @ ''/'' @ b),
      importsProcess = (\<lambda>name src. (src, None)),
      formatSource = (\<lambda>src. (src, None)),
      templateParseFS = None,
      templateExecute = (\<lambda>pc. (''package users'', None))\<rparr>"

definition emptyWorld :: world where
  "emptyWorld =
     \<lparr>stderr = [], dbLog = [], fsLog = [], fsEntries = Map.empty, fsFaults = []\<rparr>"

text \<open>Servers that answer one of the probes with "no", and one whose probes succeed
  with no row at all.\<close>

definition noDatabaseServer :: server where
  "noDatabaseServer =
     exampleServer\<lparr>selectDatabaseExists := (\<lambda>d. ([\<lparr>DatabaseExists = False\<rparr>], None))\<rparr>"

definition noTableServer :: server where
  "noTableServer =
     exampleServer\<lparr>selectTableExists := (\<lambda>t. ([\<lparr>TableExists = False\<rparr>], None))\<rparr>"

definition emptyProbeServer :: server where
  "emptyProbeServer =
     exampleServer\<lparr>selectDatabaseExists := (\<lambda>d. ([], None)),
                    selectTableExists := (\<lambda>t. ([], None))\<rparr>"

text \<open>A server that sends the rows of \<open>swappedRows\<close>.\<close>

definition swappedServer :: server where
  "swappedServer = exampleServer\<lparr>selectColumns := (\<lambda>d t. (swappedRows, None))\<rparr>"

text \<open>A world in which the directory \<^verbatim>\<open>users\<close> exists and holds a file.\<close>

definition existingDirWorld :: world where
  "existingDirWorld =
     emptyWorld\<lparr>fsEntries := [''users'' \<mapsto> Dir, ''users/users.go'' \<mapsto> File ''package old'']\<rparr>"

text \<open>A library whose \<^verbatim>\<open>imports.Process\<close> rejects, as the Go parser does, a
  source that does not begin with a package clause, and returns every other source.\<close>

definition checkingImportsLib :: golib where
  "checkingImportsLib =
     exampleLib\<lparr>importsProcess :=
       (\<lambda>name src.
          if take 8 src = ''package '' then (src, None)
          else ([], Some (LibraryError (name @ '':1:1: expected package clause''))))\<rparr>"

text \<open>A world in which the first three file-system calls succeed and the fourth, a
  write, fails after the file was truncated: the disk is full.\<close>

definition diskFullWorld :: world where
  "diskFullWorld =
     emptyWorld\<lparr>fsFaults :=
       [None, None, None, Some (Truncated 0 ''no space left on device'')]\<rparr>"

section \<open>Properties of the type mapper\<close>

lemma parseResults_loop_eq:
  "parseResults_loop c pc =
     \<lparr>ParsedColumns.TableName =
        (if c = [] then ParsedColumns.TableName pc else Columns.TableName (last c)),
      Attributes = Attributes pc @ map parseResults_attr c\<rparr>"
  by (induction c arbitrary: pc) (simp_all add: parseResults_body_def Let_def)

lemma parseResults_attr_eq:
  "parseResults_attr col =
     \<lparr>Name = ColumnName col,
      Type = (if DataType col = ''varchar'' then ''string''
              else if DataType col = ''nvarchar'' then ''string''
              else if DataType col = ''char'' then ''string''
              else if DataType col = ''int'' then ''int64''
              else if DataType col = ''float'' then ''float64''
              else if DataType col = ''bit'' then ''bool''
              else if DataType col = ''datetime'' then ''time.Time''
              else if DataType col = ''binary'' then ''[]byte''
              else '''')\<rparr>"
  by (simp add: parseResults_attr_def mssqlTypeMap_def mssqlVarChar_def mssqlNVarChar_def
      mssqlChar_def mssqlInt_def mssqlFloat_def mssqlBit_def mssqlTime_def mssqlBinary_def)

lemma parseResults_Attributes: "Attributes (parseResults c) = map parseResults_attr c"
  by (simp add: parseResults_def parseResults_loop_eq)

lemma parseResults_attr_Name: "Name (parseResults_attr col) = ColumnName col"
  by (simp add: parseResults_attr_eq)

text \<open>
  Claim C1. For every list of column rows, \<open>parseResults\<close> returns (it has no error
  result and no panic) one attribute per row, in the order of the rows: the attribute's
  name is the row's column name, and its type is \<^verbatim>\<open>string\<close> for \<^verbatim>\<open>varchar\<close>,
  \<^verbatim>\<open>nvarchar\<close> and \<^verbatim>\<open>char\<close>, \<^verbatim>\<open>int64\<close> for \<^verbatim>\<open>int\<close>, \<^verbatim>\<open>float64\<close> for
  \<^verbatim>\<open>float\<close>, \<^verbatim>\<open>bool\<close> for \<^verbatim>\<open>bit\<close>, \<^verbatim>\<open>time.Time\<close> for \<^verbatim>\<open>datetime\<close>,
  \<^verbatim>\<open>[]byte\<close> for \<^verbatim>\<open>binary\<close>, and the empty string for every other data type.
\<close>

theorem parseResults_type_mapping:
  "Attributes (parseResults c) =
     map (\<lambda>col.
       \<lparr>Name = ColumnName col,
        Type = (if DataType col = ''varchar'' then ''string''
                else if DataType col = ''nvarchar'' then ''string''
                else if DataType col = ''char'' then ''string''
                else if DataType col = ''int'' then ''int64''
                else if DataType col = ''float'' then ''float64''
                else if DataType col = ''bit'' then ''bool''
                else if DataType col = ''datetime'' then ''time.Time''
                else if DataType col = ''binary'' then ''[]byte''
                else '''')\<rparr>) c"
  by (simp add: parseResults_Attributes parseResults_attr_eq)

text \<open>The mapping at the rows of \<open>usersRows\<close>: a mapped \<^verbatim>\<open>int\<close>, a mapped
  \<^verbatim>\<open>varchar\<close>, and an unmapped \<^verbatim>\<open>xml\<close> whose attribute has a name and no type.\<close>

theorem parseResults_type_mapping_witness:
  "Attributes (parseResults usersRows) =
     [\<lparr>Name = ''Id'', Type = ''int64''\<rparr>,
      \<lparr>Name = ''Name'', Type = ''string''\<rparr>,
      \<lparr>Name = ''Profile'', Type = ''''\<rparr>]"
  using parseResults_type_mapping [of usersRows]
  by (simp add: usersRows_def exampleColumn_def)

text \<open>
  Claim C2 as stated fails: \<open>parseResults\<close> does not sort. For the rows of one table
  given with the column of ordinal position 2 before the column of ordinal position 1,
  the attribute of the second column comes first, and the result differs from the one
  for the rows sorted by ordinal position. \<open>readTable\<close> does not sort either: it
  returns the rows in the order in which the server sent them (the column query has no
  \<^verbatim>\<open>ORDER BY\<close>).
\<close>

theorem parseResults_not_sorted_counterexample:
  "map OrdinalPosition swappedRows = [2, 1]
 \<and> map ColumnName swappedRows = [''Name'', ''Id'']
 \<and> map Name (Attributes (parseResults swappedRows)) = [''Name'', ''Id'']
 \<and> map Name (Attributes (parseResults (sort_key OrdinalPosition swappedRows)))
      = [''Id'', ''Name'']
 \<and> Attributes (parseResults swappedRows)
      \<noteq> Attributes (parseResults (sort_key OrdinalPosition swappedRows))
 \<and> fst (readTable swappedServer exampleConfig exampleCommand emptyWorld)
      = Return (swappedRows, None)"
  by (simp add: parseResults_Attributes parseResults_attr_eq swappedRows_def
      exampleColumn_def readTable_def readTable_connected_def checkDatabaseExists_def
      checkTableExists_def dbLogAppend_def Let_def swappedServer_def exampleServer_def)

lemma parseResults_attr_inj_on:
  assumes "distinct (map ColumnName c)"
  shows "inj_on parseResults_attr (set c)"
proof (rule inj_onI)
  fix x y
  assume x: "x \<in> set c" and y: "y \<in> set c"
    and eq: "parseResults_attr x = parseResults_attr y"
  from eq have "Name (parseResults_attr x) = Name (parseResults_attr y)"
    by simp
  then have "ColumnName x = ColumnName y"
    by (simp add: parseResults_attr_Name)
  moreover from assms have "inj_on ColumnName (set c)"
    by (simp add: distinct_map)
  ultimately show "x = y"
    using x y by (simp add: inj_on_def)
qed

text \<open>
  Claim C2, amended. \<open>parseResults\<close> keeps the order of its input and does not sort:
  the i-th attribute is the one built from the i-th row (its name and its mapped type).
  So when the rows are given in strictly increasing order of ordinal position, the
  attributes are those of the rows in ascending ordinal position, in that order; and for
  rows with distinct column names and distinct ordinal positions (the rows of one
  table) the attributes are in that order only when the rows were given in it.
\<close>

theorem parseResults_keeps_row_order:
  "Attributes (parseResults c) = map parseResults_attr c
 \<and> (sorted_wrt (<) (map OrdinalPosition c) \<longrightarrow>
      Attributes (parseResults c) = map parseResults_attr (sort_key OrdinalPosition c))
 \<and> (distinct (map ColumnName c) \<and> distinct (map OrdinalPosition c)
      \<and> Attributes (parseResults c) = map parseResults_attr (sort_key OrdinalPosition c)
      \<longrightarrow> sorted_wrt (<) (map OrdinalPosition c))"
proof (intro conjI impI)
  show "Attributes (parseResults c) = map parseResults_attr c"
    by (rule parseResults_Attributes)
next
  assume "sorted_wrt (<) (map OrdinalPosition c)"
  then have "sorted (map OrdinalPosition c)"
    by (rule strict_sorted_imp_sorted)
  then have "sort_key OrdinalPosition c = c"
    by (rule sort_key_id_if_sorted)
  then show "Attributes (parseResults c) =
      map parseResults_attr (sort_key OrdinalPosition c)"
    by (simp add: parseResults_Attributes)
next
  assume a: "distinct (map ColumnName c) \<and> distinct (map OrdinalPosition c)
      \<and> Attributes (parseResults c) = map parseResults_attr (sort_key OrdinalPosition c)"
  then have eq: "map parseResults_attr c =
      map parseResults_attr (sort_key OrdinalPosition c)"
    by (simp add: parseResults_Attributes)
  have "inj_on parseResults_attr (set c \<union> set (sort_key OrdinalPosition c))"
    using a parseResults_attr_inj_on [of c] by simp
  with eq have "c = sort_key OrdinalPosition c"
    by (rule map_inj_on)
  then have "map OrdinalPosition c = map OrdinalPosition (sort_key OrdinalPosition c)"
    by simp
  then have "sorted (map OrdinalPosition c)"
    by (simp only: sorted_sort_key)
  with a show "sorted_wrt (<) (map OrdinalPosition c)"
    by (simp add: strict_sorted_iff)
qed

text \<open>At \<open>usersRows\<close>, given in ordinal order, the attributes are in ordinal order; at
  \<open>swappedRows\<close>, not given in ordinal order, they are not.\<close>

theorem parseResults_keeps_row_order_witness:
  "sorted_wrt (<) (map OrdinalPosition usersRows)
 \<and> Attributes (parseResults usersRows) =
      map parseResults_attr (sort_key OrdinalPosition usersRows)
 \<and> distinct (map ColumnName swappedRows)
 \<and> distinct (map OrdinalPosition swappedRows)
 \<and> \<not> sorted_wrt (<) (map OrdinalPosition swappedRows)
 \<and> Attributes (parseResults swappedRows) \<noteq>
      map parseResults_attr (sort_key OrdinalPosition swappedRows)"
proof -
  have h: "sorted_wrt (<) (map OrdinalPosition usersRows)"
    by (simp add: usersRows_def exampleColumn_def)
  have b: "Attributes (parseResults usersRows) =
      map parseResults_attr (sort_key OrdinalPosition usersRows)"
    using h parseResults_keeps_row_order [of usersRows] by blast
  have d1: "distinct (map ColumnName swappedRows)"
    by (simp add: swappedRows_def exampleColumn_def)
  have d2: "distinct (map OrdinalPosition swappedRows)"
    by (simp add: swappedRows_def exampleColumn_def)
  have ns: "\<not> sorted_wrt (<) (map OrdinalPosition swappedRows)"
    by (simp add: swappedRows_def exampleColumn_def)
  have ne: "Attributes (parseResults swappedRows) \<noteq>
      map parseResults_attr (sort_key OrdinalPosition swappedRows)"
    using d1 d2 ns parseResults_keeps_row_order [of swappedRows] by blast
  show ?thesis
    using h b d1 d2 ns ne by blast
qed

text \<open>
  Claim C9. For every non-empty list of column rows, the table name of the result of
  \<open>parseResults\<close> is the table name of the last row.
\<close>

theorem parseResults_table_name_last:
  "c \<noteq> [] \<Longrightarrow> ParsedColumns.TableName (parseResults c) = Columns.TableName (last c)"
  by (simp add: parseResults_def parseResults_loop_eq)

theorem parseResults_table_name_last_witness:
  "usersRows \<noteq> [] \<and> ParsedColumns.TableName (parseResults usersRows) = ''Users''"
proof -
  have h: "usersRows \<noteq> []"
    by (simp add: usersRows_def)
  have l: "Columns.TableName (last usersRows) = ''Users''"
    by (simp add: usersRows_def exampleColumn_def)
  show ?thesis
    using h l parseResults_table_name_last [OF h] by simp
qed

section \<open>Properties of the schema reader\<close>

lemma connectionState_Close: "connectionState b (evs @ [Close]) = False"
  by (induction b evs rule: connectionState.induct) simp_all

lemma checkDatabaseExists_log:
  "dbLog (snd (checkDatabaseExists srv cmd w)) =
     dbLog w @ [Query (DatabaseExistsQuery (databaseFlag cmd))]"
  by (simp add: checkDatabaseExists_def dbLogAppend_def Let_def
      split: prod.splits list.splits)

lemma checkTableExists_log:
  "dbLog (snd (checkTableExists srv cmd w)) =
     dbLog w @ [Query (TableExistsQuery (tableFlag cmd))]"
  by (simp add: checkTableExists_def dbLogAppend_def Let_def
      split: prod.splits list.splits)

lemma readTable_connected_log:
  "\<exists>qs. dbLog (snd (readTable_connected srv cmd w)) = dbLog w @ map Query qs"
proof -
  let ?q1 = "DatabaseExistsQuery (databaseFlag cmd)"
  let ?q2 = "TableExistsQuery (tableFlag cmd)"
  let ?q3 = "ColumnsQuery (databaseFlag cmd) (tableFlag cmd)"
  have "dbLog (snd (readTable_connected srv cmd w)) = dbLog w @ map Query [?q1]
      \<or> dbLog (snd (readTable_connected srv cmd w)) = dbLog w @ map Query [?q1, ?q2]
      \<or> dbLog (snd (readTable_connected srv cmd w)) = dbLog w @ map Query [?q1, ?q2, ?q3]"
    using checkDatabaseExists_log [of srv cmd w]
      checkTableExists_log [of srv cmd "snd (checkDatabaseExists srv cmd w)"]
    by (auto simp: readTable_connected_def dbLogAppend_def Let_def
        split: prod.splits outcome.splits)
  then show ?thesis by blast
qed

text \<open>
  Claim C3. When the connection opens and the database-existence probe answers that the
  database does not exist, \<open>readTable\<close> returns the error made by
  \<^verbatim>\<open>errors.New("databaseG does not exist")\<close>, and all it did on the connection is
  the probe and the close: neither the table-existence probe nor the column query is
  sent. Nothing else of the world changes.
\<close>

theorem readTable_database_not_found:
  assumes "sqlxConnect srv ''mssql'' (connectionURL cfg) = None"
    and "selectDatabaseExists srv (databaseFlag cmd) = (row # rest, None)"
    and "\<not> DatabaseExists row"
  shows "readTable srv cfg cmd w =
     (Return ([], Some (ErrorsNew ''databaseG does not exist'')),
      w\<lparr>dbLog := dbLog w @
          [Connect, Query (DatabaseExistsQuery (databaseFlag cmd)), Close]\<rparr>)"
  using assms
  by (simp add: readTable_def readTable_connected_def checkDatabaseExists_def
      dbLogAppend_def Let_def)

theorem readTable_database_not_found_witness:
  "sqlxConnect noDatabaseServer ''mssql'' (connectionURL exampleConfig) = None
 \<and> selectDatabaseExists noDatabaseServer (databaseFlag exampleCommand)
      = ([\<lparr>DatabaseExists = False\<rparr>], None)
 \<and> readTable noDatabaseServer exampleConfig exampleCommand emptyWorld =
     (Return ([], Some (ErrorsNew ''databaseG does not exist'')),
      emptyWorld\<lparr>dbLog := [Connect, Query (DatabaseExistsQuery ''Shop''), Close]\<rparr>)"
proof -
  have c: "sqlxConnect noDatabaseServer ''mssql'' (connectionURL exampleConfig) = None"
    by (simp add: noDatabaseServer_def exampleServer_def)
  have p: "selectDatabaseExists noDatabaseServer (databaseFlag exampleCommand)
      = ([\<lparr>DatabaseExists = False\<rparr>], None)"
    by (simp add: noDatabaseServer_def exampleServer_def)
  have r: "\<not> DatabaseExists \<lparr>DatabaseExists = False\<rparr>"
    by simp
  show ?thesis
    using c p readTable_database_not_found [OF c p r, of emptyWorld]
    by (simp add: exampleCommand_def emptyWorld_def)
qed

text \<open>
  Claim C4. When the connection opens, the database-existence probe answers that the
  database exists and the table-existence probe answers that the table does not exist,
  \<open>readTable\<close> returns the error made by \<^verbatim>\<open>errors.New("table does not exist")\<close>,
  and all it did on the connection is the two probes and the close: the column query
  is not sent. Nothing else of the world changes.
\<close>

theorem readTable_table_not_found:
  assumes "sqlxConnect srv ''mssql'' (connectionURL cfg) = None"
    and "selectDatabaseExists srv (databaseFlag cmd) = (drow # drest, None)"
    and "DatabaseExists drow"
    and "selectTableExists srv (tableFlag cmd) = (trow # trest, None)"
    and "\<not> TableExists trow"
  shows "readTable srv cfg cmd w =
     (Return ([], Some (ErrorsNew ''table does not exist'')),
      w\<lparr>dbLog := dbLog w @
          [Connect, Query (DatabaseExistsQuery (databaseFlag cmd)),
           Query (TableExistsQuery (tableFlag cmd)), Close]\<rparr>)"
  using assms
  by (simp add: readTable_def readTable_connected_def checkDatabaseExists_def
      checkTableExists_def dbLogAppend_def Let_def)

theorem readTable_table_not_found_witness:
  "sqlxConnect noTableServer ''mssql'' (connectionURL exampleConfig) = None
 \<and> selectDatabaseExists noTableServer (databaseFlag exampleCommand)
      = ([\<lparr>DatabaseExists = True\<rparr>], None)
 \<and> selectTableExists noTableServer (tableFlag exampleCommand)
      = ([\<lparr>TableExists = False\<rparr>], None)
 \<and> readTable noTableServer exampleConfig exampleCommand emptyWorld =
     (Return ([], Some (ErrorsNew ''table does not exist'')),
      emptyWorld\<lparr>dbLog := [Connect, Query (DatabaseExistsQuery ''Shop''),
                             Query (TableExistsQuery ''Users''), Close]\<rparr>)"
proof -
  have c: "sqlxConnect noTableServer ''mssql'' (connectionURL exampleConfig) = None"
    by (simp add: noTableServer_def exampleServer_def)
  have p: "selectDatabaseExists noTableServer (databaseFlag exampleCommand)
      = ([\<lparr>DatabaseExists = True\<rparr>], None)"
    by (simp add: noTableServer_def exampleServer_def)
  have r: "DatabaseExists \<lparr>DatabaseExists = True\<rparr>"
    by simp
  have q: "selectTableExists noTableServer (tableFlag exampleCommand)
      = ([\<lparr>TableExists = False\<rparr>], None)"
    by (simp add: noTableServer_def exampleServer_def)
  have s: "\<not> TableExists \<lparr>TableExists = False\<rparr>"
    by simp
  show ?thesis
    using c p q readTable_table_not_found [OF c p r q s, of emptyWorld]
    by (simp add: exampleCommand_def emptyWorld_def)
qed

text \<open>
  Claim C8. When \<open>readTable\<close> has opened a connection, then whatever the probes and
  the column query answer, and whether the call returns rows, returns an error or
  panics, what it did on the connection is: open it, send queries, close it. The close
  is the last event and the connection is closed afterwards.
\<close>

theorem readTable_closes_connection:
  assumes "sqlxConnect srv ''mssql'' (connectionURL cfg) = None"
  shows "(\<exists>qs. dbLog (snd (readTable srv cfg cmd w)) =
            dbLog w @ [Connect] @ map Query qs @ [Close])
       \<and> \<not> connectionState b (dbLog (snd (readTable srv cfg cmd w)))"
proof -
  obtain qs where qs:
    "dbLog (snd (readTable_connected srv cmd (dbLogAppend Connect w)))
      = dbLog (dbLogAppend Connect w) @ map Query qs"
    using readTable_connected_log by blast
  have log: "dbLog (snd (readTable srv cfg cmd w)) =
      dbLog w @ [Connect] @ map Query qs @ [Close]"
    using assms qs
    by (simp add: readTable_def Let_def dbLogAppend_def case_prod_beta)
  have "dbLog (snd (readTable srv cfg cmd w)) =
      (dbLog w @ [Connect] @ map Query qs) @ [Close]"
    using log by simp
  then have "\<not> connectionState b (dbLog (snd (readTable srv cfg cmd w)))"
    by (simp only: connectionState_Close simp_thms)
  with log show ?thesis by blast
qed

text \<open>Three runs: the rows are returned, the database is not found, the probe panics.
  Each ends with the close.\<close>

theorem readTable_closes_connection_witness:
  "sqlxConnect exampleServer ''mssql'' (connectionURL exampleConfig) = None
 \<and> dbLog (snd (readTable exampleServer exampleConfig exampleCommand emptyWorld)) =
     [Connect, Query (DatabaseExistsQuery ''Shop''), Query (TableExistsQuery ''Users''),
      Query (ColumnsQuery ''Shop'' ''Users''), Close]
 \<and> \<not> connectionState True
       (dbLog (snd (readTable exampleServer exampleConfig exampleCommand emptyWorld)))
 \<and> readTable emptyProbeServer exampleConfig exampleCommand emptyWorld =
     (Panic ''runtime error: index out of range [0] with length 0'',
      emptyWorld\<lparr>dbLog := [Connect, Query (DatabaseExistsQuery ''Shop''), Close]\<rparr>)"
proof -
  have c: "sqlxConnect exampleServer ''mssql'' (connectionURL exampleConfig) = None"
    by (simp add: exampleServer_def)
  have l: "dbLog (snd (readTable exampleServer exampleConfig exampleCommand emptyWorld)) =
     [Connect, Query (DatabaseExistsQuery ''Shop''), Query (TableExistsQuery ''Users''),
      Query (ColumnsQuery ''Shop'' ''Users''), Close]"
    by (simp add: readTable_def readTable_connected_def checkDatabaseExists_def
        checkTableExists_def dbLogAppend_def Let_def exampleServer_def exampleCommand_def
        emptyWorld_def)
  have p: "readTable emptyProbeServer exampleConfig exampleCommand emptyWorld =
     (Panic ''runtime error: index out of range [0] with length 0'',
      emptyWorld\<lparr>dbLog := [Connect, Query (DatabaseExistsQuery ''Shop''), Close]\<rparr>)"
    by (simp add: readTable_def readTable_connected_def checkDatabaseExists_def
        dbLogAppend_def Let_def emptyProbeServer_def exampleServer_def exampleCommand_def
        emptyWorld_def)
  show ?thesis
    using c l p
      readTable_closes_connection [OF c, of exampleCommand emptyWorld True]
    by simp
qed

text \<open>
  Claim C10. \<open>checkDatabaseExists\<close> and \<open>checkTableExists\<close> read the first element
  of the result without a test of its length: each panics exactly when its probe
  succeeds (no error) with no row. So each returns, for every answer of the server,
  only under the precondition that a successful probe has at least one row.
\<close>

theorem probes_panic_on_empty_result:
  "(isPanic (fst (checkDatabaseExists srv cmd w)) \<longleftrightarrow>
      selectDatabaseExists srv (databaseFlag cmd) = ([], None))
 \<and> (isPanic (fst (checkTableExists srv cmd w)) \<longleftrightarrow>
      selectTableExists srv (tableFlag cmd) = ([], None))"
  by (auto simp: checkDatabaseExists_def checkTableExists_def Let_def
      split: prod.splits list.splits)

theorem probes_panic_on_empty_result_witness:
  "selectDatabaseExists emptyProbeServer (databaseFlag exampleCommand) = ([], None)
 \<and> isPanic (fst (checkDatabaseExists emptyProbeServer exampleCommand emptyWorld))
 \<and> selectTableExists emptyProbeServer (tableFlag exampleCommand) = ([], None)
 \<and> isPanic (fst (checkTableExists emptyProbeServer exampleCommand emptyWorld))
 \<and> \<not> isPanic (fst (checkDatabaseExists exampleServer exampleCommand emptyWorld))
 \<and> \<not> isPanic (fst (checkTableExists exampleServer exampleCommand emptyWorld))"
proof -
  have d: "selectDatabaseExists emptyProbeServer (databaseFlag exampleCommand) = ([], None)"
    by (simp add: emptyProbeServer_def exampleServer_def)
  have t: "selectTableExists emptyProbeServer (tableFlag exampleCommand) = ([], None)"
    by (simp add: emptyProbeServer_def exampleServer_def)
  have d': "selectDatabaseExists exampleServer (databaseFlag exampleCommand) \<noteq> ([], None)"
    by (simp add: exampleServer_def)
  have t': "selectTableExists exampleServer (tableFlag exampleCommand) \<noteq> ([], None)"
    by (simp add: exampleServer_def)
  show ?thesis
    using d t d' t'
      probes_panic_on_empty_result [of emptyProbeServer exampleCommand emptyWorld]
      probes_panic_on_empty_result [of exampleServer exampleCommand emptyWorld]
    by simp
qed

section \<open>Properties of the output writer\<close>

lemma osMkdir_exists:
  "fsEntries w name = Some n \<Longrightarrow>
   osMkdir name w =
     (Some (PathError ''mkdir'' name ''file exists''),
      w\<lparr>fsLog := fsLog w @ [Mkdir name], fsFaults := tl (fsFaults w)\<rparr>)"
  by (cases "fsFaults w") (simp_all add: osMkdir_def nextFault_def)

lemma osMkdir_stderr: "osMkdir name w = (r, w') \<Longrightarrow> stderr w' = stderr w"
  by (auto simp: osMkdir_def nextFault_def Let_def split: list.splits option.splits)

lemma osWriteFile_ok:
  "osWriteFile name data w = (None, w') \<Longrightarrow>
   fsEntries w' = (fsEntries w)(name \<mapsto> File data) \<and> stderr w' = stderr w"
  by (auto simp: osWriteFile_def nextFault_def Let_def
      split: list.splits option.splits node.splits fault.splits)

lemma ioutilReadFile_frame:
  "ioutilReadFile name w = (r, w') \<Longrightarrow>
   fsEntries w' = fsEntries w \<and> stderr w' = stderr w"
  by (auto simp: ioutilReadFile_def nextFault_def Let_def
      split: list.splits option.splits node.splits)

text \<open>
  Claim C5. When a directory named as the lower-cased table name exists already,
  \<open>writeTypes\<close> fails with the error of \<^verbatim>\<open>os.Mkdir\<close> that says so ("file exists"),
  its only file-system call is that \<^verbatim>\<open>Mkdir\<close> (no file is written), the directory
  tree with all its files is unchanged, and the failure is written to standard error.
\<close>

theorem writeTypes_directory_exists:
  assumes "fsEntries w (ToLower lib (tableFlag cmd)) = Some Dir"
  shows "fst (writeTypes lib cmd fileBytes w) =
           Some (PathError ''mkdir'' (ToLower lib (tableFlag cmd)) ''file exists'')
       \<and> fsEntries (snd (writeTypes lib cmd fileBytes w)) = fsEntries w
       \<and> fsLog (snd (writeTypes lib cmd fileBytes w)) =
           fsLog w @ [Mkdir (ToLower lib (tableFlag cmd))]
       \<and> stderr (snd (writeTypes lib cmd fileBytes w)) =
           stderr w @ [''While writing directory: mkdir '' @ ToLower lib (tableFlag cmd)
                        @ '': file exists'']"
  using osMkdir_exists [OF assms]
  by (simp add: writeTypes_def Let_def Fprintf_Stderr_def)

theorem writeTypes_directory_exists_witness:
  "fsEntries existingDirWorld (ToLower exampleLib (tableFlag exampleCommand)) = Some Dir
 \<and> fst (writeTypes exampleLib exampleCommand ''package users'' existingDirWorld) =
     Some (PathError ''mkdir'' ''users'' ''file exists'')
 \<and> fsLog (snd (writeTypes exampleLib exampleCommand ''package users'' existingDirWorld)) =
     [Mkdir ''users'']
 \<and> fsEntries (snd (writeTypes exampleLib exampleCommand ''package users'' existingDirWorld))
     ''users/users.go'' = Some (File ''package old'')
 \<and> stderr (snd (writeTypes exampleLib exampleCommand ''package users'' existingDirWorld)) =
     [''While writing directory: mkdir users: file exists'']"
proof -
  have h: "fsEntries existingDirWorld (ToLower exampleLib (tableFlag exampleCommand))
      = Some Dir"
    by (simp add: existingDirWorld_def emptyWorld_def exampleLib_def exampleCommand_def
        asciiLower_def)
  have t: "ToLower exampleLib (tableFlag exampleCommand) = ''users''"
    by (simp add: exampleLib_def exampleCommand_def asciiLower_def)
  have e: "fsEntries existingDirWorld ''users/users.go'' = Some (File ''package old'')"
    by (simp add: existingDirWorld_def emptyWorld_def)
  have l: "fsLog existingDirWorld = [] \<and> stderr existingDirWorld = []"
    by (simp add: existingDirWorld_def emptyWorld_def)
  show ?thesis
    using h t e l writeTypes_directory_exists [OF h, of "''package users''"]
    by simp
qed

text \<open>
  Claim C6 as stated fails. Step 4 is the re-read of the file, \<^verbatim>\<open>imports.Process\<close>
  and the rewrite of the file in place. In \<open>diskFullWorld\<close> step 3 writes the file,
  the re-read and \<^verbatim>\<open>imports.Process\<close> succeed, and the rewrite fails with "no space
  left on device" after \<^verbatim>\<open>os.WriteFile\<close> truncated the file: \<open>writeTypes\<close> returns
  \<^verbatim>\<open>nil\<close>, writes nothing to standard error, and the file no longer has the contents
  written in step 3.
\<close>

theorem writeTypes_rewrite_failure_counterexample:
  "fsEntries (snd (osWriteFile ''users/users.go'' ''package users''
                (snd (osMkdir ''users'' diskFullWorld))))
     ''users/users.go'' = Some (File ''package users'')
 \<and> fst (osWriteFile ''users/users.go'' ''package users''
         (snd (ioutilReadFile ''users/users.go''
           (snd (osWriteFile ''users/users.go'' ''package users''
             (snd (osMkdir ''users'' diskFullWorld)))))))
     = Some (PathError ''write'' ''users/users.go'' ''no space left on device'')
 \<and> fst (writeTypes exampleLib exampleCommand ''package users'' diskFullWorld) = None
 \<and> stderr (snd (writeTypes exampleLib exampleCommand ''package users'' diskFullWorld)) = []
 \<and> fsEntries (snd (writeTypes exampleLib exampleCommand ''package users'' diskFullWorld))
     ''users/users.go'' \<noteq> Some (File ''package users'')"
  by (simp add: writeTypes_def osMkdir_def osWriteFile_def ioutilReadFile_def
      nextFault_def Fprintf_Stderr_def exampleLib_def exampleCommand_def asciiLower_def
      diskFullWorld_def emptyWorld_def Let_def)

text \<open>
  Claim C6, amended. When the directory was made and the file was written (step 3), and
  then step 4 fails at the re-read of the file or at \<^verbatim>\<open>imports.Process\<close>,
  \<open>writeTypes\<close> returns that error and writes it to standard error, and the directory
  tree is the one step 3 left: the file is there with the contents written in step 3.
\<close>

theorem writeTypes_import_failure_keeps_file:
  assumes "tLower = ToLower lib (tableFlag cmd)"
    and "filePath = pathJoin lib tLower (tLower @ ''.go'')"
    and mk: "osMkdir tLower w = (None, w1)"
    and wr: "osWriteFile filePath fileBytes w1 = (None, w2)"
    and rd: "ioutilReadFile filePath w2 = ((genFileBytes, rerr), w3)"
    and fail: "rerr = Some e \<or>
       (rerr = None \<and>
        importsProcess lib (tLower @ ''.go'') genFileBytes = (formatted, Some e))"
  shows "fst (writeTypes lib cmd fileBytes w) = Some e
       \<and> fsEntries (snd (writeTypes lib cmd fileBytes w)) = fsEntries w2
       \<and> fsEntries (snd (writeTypes lib cmd fileBytes w)) filePath = Some (File fileBytes)
       \<and> stderr (snd (writeTypes lib cmd fileBytes w)) =
           stderr w @ [(if rerr = None then ''While formatting imports: ''
                        else ''While opening file for imports generation: '')
                       @ errorText e]"
proof -
  have e2: "fsEntries w2 = (fsEntries w1)(filePath \<mapsto> File fileBytes)"
    and s2: "stderr w2 = stderr w1"
    using osWriteFile_ok [OF wr] by simp_all
  have s1: "stderr w1 = stderr w"
    using osMkdir_stderr [OF mk] .
  have e3: "fsEntries w3 = fsEntries w2" and s3: "stderr w3 = stderr w2"
    using ioutilReadFile_frame [OF rd] by simp_all
  from fail show ?thesis
  proof
    assume "rerr = Some e"
    then show ?thesis
      using assms(1,2) mk wr rd e2 e3 s1 s2 s3
      by (simp add: writeTypes_def Let_def Fprintf_Stderr_def)
  next
    assume "rerr = None \<and>
        importsProcess lib (tLower @ ''.go'') genFileBytes = (formatted, Some e)"
    then show ?thesis
      using assms(1,2) mk wr rd e2 e3 s1 s2 s3
      by (simp add: writeTypes_def Let_def Fprintf_Stderr_def)
  qed
qed

text \<open>A run on a source without a package clause: \<^verbatim>\<open>imports.Process\<close> rejects
  it, and the file stays as step 3 wrote it.\<close>

theorem writeTypes_import_failure_keeps_file_witness:
  "fst (osMkdir ''users'' emptyWorld) = None
 \<and> fst (osWriteFile ''users/users.go'' ''func main() {}''
          (snd (osMkdir ''users'' emptyWorld))) = None
 \<and> fst (ioutilReadFile ''users/users.go''
          (snd (osWriteFile ''users/users.go'' ''func main() {}''
                 (snd (osMkdir ''users'' emptyWorld))))) = (''func main() {}'', None)
 \<and> importsProcess checkingImportsLib ''users.go'' ''func main() {}'' =
     ([], Some (LibraryError ''users.go:1:1: expected package clause''))
 \<and> fst (writeTypes checkingImportsLib exampleCommand ''func main() {}'' emptyWorld) =
     Some (LibraryError ''users.go:1:1: expected package clause'')
 \<and> fsEntries (snd (writeTypes checkingImportsLib exampleCommand ''func main() {}'' emptyWorld))
     ''users/users.go'' = Some (File ''func main() {}'')
 \<and> stderr (snd (writeTypes checkingImportsLib exampleCommand ''func main() {}'' emptyWorld)) =
     [''While formatting imports: users.go:1:1: expected package clause'']"
proof -
  let ?w1 = "snd (osMkdir ''users'' emptyWorld)"
  let ?w2 = "snd (osWriteFile ''users/users.go'' ''func main() {}'' ?w1)"
  let ?w3 = "snd (ioutilReadFile ''users/users.go'' ?w2)"
  have t: "''users'' = ToLower checkingImportsLib (tableFlag exampleCommand)"
    by (simp add: checkingImportsLib_def exampleLib_def exampleCommand_def asciiLower_def)
  have p: "''users/users.go'' = pathJoin checkingImportsLib ''users'' (''users'' @ ''.go'')"
    by (simp add: checkingImportsLib_def exampleLib_def)
  have mk: "osMkdir ''users'' emptyWorld = (None, ?w1)"
    by (simp add: osMkdir_def nextFault_def emptyWorld_def)
  have wr: "osWriteFile ''users/users.go'' ''func main() {}'' ?w1 = (None, ?w2)"
    by (simp add: osWriteFile_def osMkdir_def nextFault_def emptyWorld_def)
  have rd: "ioutilReadFile ''users/users.go'' ?w2 = ((''func main() {}'', None), ?w3)"
    by (simp add: ioutilReadFile_def osWriteFile_def osMkdir_def nextFault_def
        emptyWorld_def)
  have ip: "importsProcess checkingImportsLib (''users'' @ ''.go'') ''func main() {}'' =
      ([], Some (LibraryError ''users.go:1:1: expected package clause''))"
    by (simp add: checkingImportsLib_def)
  have fail: "None = Some (LibraryError ''users.go:1:1: expected package clause'') \<or>
      (None = (None :: error option) \<and>
       importsProcess checkingImportsLib (''users'' @ ''.go'') ''func main() {}'' =
         ([], Some (LibraryError ''users.go:1:1: expected package clause'')))"
    using ip by simp
  have s: "stderr emptyWorld = []"
    by (simp add: emptyWorld_def)
  have a1: "fst (osMkdir ''users'' emptyWorld) = None"
    by (simp add: osMkdir_def nextFault_def emptyWorld_def)
  have a2: "fst (osWriteFile ''users/users.go'' ''func main() {}'' ?w1) = None"
    by (simp add: osWriteFile_def osMkdir_def nextFault_def emptyWorld_def)
  have a3: "fst (ioutilReadFile ''users/users.go'' ?w2) = (''func main() {}'', None)"
    by (simp add: ioutilReadFile_def osWriteFile_def osMkdir_def nextFault_def
        emptyWorld_def)
  have ip': "importsProcess checkingImportsLib ''users.go'' ''func main() {}'' =
      ([], Some (LibraryError ''users.go:1:1: expected package clause''))"
    by (simp add: checkingImportsLib_def)
  note th = writeTypes_import_failure_keeps_file [OF t p mk wr rd fail]
  have r1: "fst (writeTypes checkingImportsLib exampleCommand ''func main() {}'' emptyWorld) =
      Some (LibraryError ''users.go:1:1: expected package clause'')"
    using th by blast
  have r2: "fsEntries (snd (writeTypes checkingImportsLib exampleCommand ''func main() {}''
      emptyWorld)) ''users/users.go'' = Some (File ''func main() {}'')"
    using th by blast
  have r3: "stderr (snd (writeTypes checkingImportsLib exampleCommand ''func main() {}''
      emptyWorld)) = [''While formatting imports: users.go:1:1: expected package clause'']"
    using th s by simp
  show ?thesis
    using a1 a2 a3 ip' r1 r2 r3 by blast
qed

text \<open>
  Claim C7 does not hold of the code. In \<open>diskFullWorld\<close> the directory is made, the
  file is written and read back, \<^verbatim>\<open>imports.Process\<close> succeeds, and the second
  \<^verbatim>\<open>os.WriteFile\<close> fails with "no space left on device" after it truncated the
  file. \<open>writeTypes\<close> returns \<^verbatim>\<open>nil\<close> and writes nothing to standard error, and so
  does \<open>generateCmd\<close>: the error of the second write is lost, and the generated file
  is left empty.
\<close>

theorem writeTypes_drops_rewrite_error:
  "fst (osWriteFile ''users/users.go'' ''package users''
         (snd (ioutilReadFile ''users/users.go''
           (snd (osWriteFile ''users/users.go'' ''package users''
             (snd (osMkdir ''users'' diskFullWorld)))))))
     = Some (PathError ''write'' ''users/users.go'' ''no space left on device'')
 \<and> fst (writeTypes exampleLib exampleCommand ''package users'' diskFullWorld) = None
 \<and> stderr (snd (writeTypes exampleLib exampleCommand ''package users'' diskFullWorld)) = []
 \<and> fsLog (snd (writeTypes exampleLib exampleCommand ''package users'' diskFullWorld)) =
     [Mkdir ''users'', WriteFile ''users/users.go'' ''package users'',
      ReadFile ''users/users.go'', WriteFile ''users/users.go'' ''package users'']
 \<and> fsEntries (snd (writeTypes exampleLib exampleCommand ''package users'' diskFullWorld))
     ''users/users.go'' = Some (File [])
 \<and> fst (generateCmd exampleLib exampleServer exampleConfig exampleCommand diskFullWorld)
     = Return ()
 \<and> stderr (snd (generateCmd exampleLib exampleServer exampleConfig exampleCommand
                  diskFullWorld)) = []"
  by (simp add: writeTypes_def generateCmd_def generateTypes_def readTable_def
      readTable_connected_def checkDatabaseExists_def checkTableExists_def dbLogAppend_def
      osMkdir_def osWriteFile_def ioutilReadFile_def nextFault_def Fprintf_Stderr_def
      exampleLib_def exampleCommand_def exampleServer_def exampleConfig_def asciiLower_def
      diskFullWorld_def emptyWorld_def Let_def)

end
